theory Spec2Isabelle
  imports Main "HOL-Library.Multiset" "HOL-Library.Sublist" "HOL-Library.Char_ord"
    "HOL-Library.List_Lexorder"
begin

section \<open>Frequency tables and top-N ranking\<close>

text \<open>
  Go's \<^verbatim>\<open>int\<close> is modelled as \<open>int\<close>: every count is bounded by the length of a slice,
  which itself is an \<^verbatim>\<open>int\<close>, so no counter wraps around. A Go \<^verbatim>\<open>string\<close> is a byte
  sequence, modelled as \<open>string\<close> (a list of 8-bit characters), and \<^verbatim>\<open>len\<close> is \<open>length\<close>.
\<close>

record KeyValue =
  Key :: string
  Value :: int

text \<open>The statement \<^verbatim>\<open>m[k]++\<close> on a \<^verbatim>\<open>map[string]int\<close>: a missing key reads as 0.\<close>

definition incr :: "(string \<rightharpoonup> int) \<Rightarrow> string \<Rightarrow> (string \<rightharpoonup> int)" where
  "incr m k = m(k \<mapsto> (case m k of None \<Rightarrow> 0 | Some c \<Rightarrow> c) + 1)"

text \<open>
  \<^verbatim>\<open>NewsAPIArticle\<close> of news_crawler.go. The nested struct \<^verbatim>\<open>Source\<close> has the single field
  \<^verbatim>\<open>Name\<close>; \<^verbatim>\<open>time.Time\<close> is kept as the decoded timestamp text.
\<close>

record NewsAPISource =
  Name :: string

record NewsAPIArticle =
  Source :: NewsAPISource
  Author :: string
  Title :: string
  URL :: string
  PublishedAt :: string
  Content :: string

record NewsAPIResponse =
  Status :: string
  TotalResults :: int
  Articles :: "NewsAPIArticle list"

text \<open>\<^verbatim>\<open>GDELTArticle\<close> and \<^verbatim>\<open>GDELTResponse\<close> of gdelt_crawler.go.\<close>

record GDELTArticle =
  GDELT_URL :: string
  URLMobile :: string
  GDELT_Title :: string
  SeenDate :: string
  SocialImg :: string
  Domain :: string
  Language :: string
  SourceCountry :: string

record GDELTResponse =
  GDELT_Articles :: "GDELTArticle list"

text \<open>
  The counting loop of \<^verbatim>\<open>ExplorarDatosNewsAPI\<close>:
  \<^verbatim>\<open>fuentes := make(map[string]int); for _, art := range response.Articles { fuentes[art.Source.Name]++ }\<close>
\<close>

definition fuentes :: "NewsAPIArticle list \<Rightarrow> (string \<rightharpoonup> int)" where
  "fuentes articles = fold (\<lambda>art m. incr m (Name (Source art))) articles Map.empty"






subsection \<open>Sorting\<close>

text \<open>
  \<^verbatim>\<open>sort.Slice\<close> belongs to Go's standard library. It is a parameter of the model, a function
  \<open>srt lt xs\<close>, constrained only by what its documentation promises: the result is a
  rearrangement of the slice in which no later element is \<open>lt\<close> (the \<^verbatim>\<open>less\<close> closure)
  than an earlier one. The sort is not stable, so nothing else is assumed.
\<close>

type_synonym 'a sorter = "('a \<Rightarrow> 'a \<Rightarrow> bool) \<Rightarrow> 'a list \<Rightarrow> 'a list"

definition sort_Slice_contract :: "'a sorter \<Rightarrow> ('a \<Rightarrow> 'a \<Rightarrow> bool) \<Rightarrow> bool" where
  "sort_Slice_contract srt lt \<longleftrightarrow>
     (\<forall>xs. mset (srt lt xs) = mset xs \<and> sorted_wrt (\<lambda>a b. \<not> lt b a) (srt lt xs))"

text \<open>
  The insertion sort that \<^verbatim>\<open>sort.Slice\<close> runs on slices of at most 12 elements:
  \<^verbatim>\<open>for i := a + 1; i < b; i++ { for j := i; j > a && less(j, j-1); j-- { swap(j, j-1) } }\<close>
  \<open>sink\<close> is the inner loop, working on the already sorted prefix held in reverse (its
  head is the element at index \<open>j - 1\<close>).
\<close>

fun sink :: "('a \<Rightarrow> 'a \<Rightarrow> bool) \<Rightarrow> 'a \<Rightarrow> 'a list \<Rightarrow> 'a list" where
  "sink lt x [] = [x]"
| "sink lt x (y # ys) = (if lt x y then y # sink lt x ys else x # y # ys)"

definition insertionSort :: "'a sorter" where
  "insertionSort lt xs = rev (fold (sink lt) xs [])"

subsection \<open>getTopN\<close>

text \<open>The comparison closure passed to \<^verbatim>\<open>sort.Slice\<close>: \<^verbatim>\<open>kvList[i].Value > kvList[j].Value\<close>.\<close>

definition byValueDesc :: "KeyValue \<Rightarrow> KeyValue \<Rightarrow> bool" where
  "byValueDesc a b \<longleftrightarrow> Value a > Value b"

text \<open>
  \<^verbatim>\<open>for k, v := range m\<close> visits every entry of the map once, in an order the runtime
  chooses. The order is the parameter \<open>ks\<close>; it is a legal iteration order of \<open>m\<close> when it
  lists the keys of \<open>m\<close> without repetition.
\<close>

definition range_order :: "(string \<rightharpoonup> int) \<Rightarrow> string list \<Rightarrow> bool" where
  "range_order m ks \<longleftrightarrow> distinct ks \<and> set ks = dom m"

definition range_entries :: "string list \<Rightarrow> (string \<rightharpoonup> int) \<Rightarrow> KeyValue list" where
  "range_entries ks m =
     List.map_filter (\<lambda>k. map_option (\<lambda>v. \<lparr>Key = k, Value = v\<rparr>) (m k)) ks"

text \<open>The run-time panic of a slice expression whose bound is out of range.\<close>

datatype panic = SliceBoundsOutOfRange int

text \<open>The zero value of \<^verbatim>\<open>KeyValue\<close>, which fills the unused capacity of a backing array.\<close>

definition zeroKeyValue :: KeyValue where
  "zeroKeyValue = \<lparr>Key = [], Value = 0\<rparr>"

text \<open>
  The slice expression \<^verbatim>\<open>kvList[:n]\<close>. Its bound is checked against the capacity, not the
  length: it panics when \<open>n < 0\<close> or \<open>n > cap(kvList)\<close>, and for \<open>len(kvList) < n \<le> cap(kvList)\<close>
  it reaches into the unused capacity and returns zero values after the elements. The
  capacity is the length plus \<open>spare\<close>, the room that the growth policy of \<^verbatim>\<open>append\<close>
  happened to leave; \<open>spare\<close> is a choice of the runtime and a parameter here.
\<close>

definition slice_to :: "KeyValue list \<Rightarrow> nat \<Rightarrow> int \<Rightarrow> panic + KeyValue list" where
  "slice_to kvList spare n =
     (if n < 0 \<or> n > int (length kvList + spare) then Inl (SliceBoundsOutOfRange n)
      else Inr (take (nat n) (kvList @ replicate spare zeroKeyValue)))"

text \<open>
  \<^verbatim>\<open>getTopN(m, n)\<close>, identical in news_crawler.go, gdelt_crawler.go and the Guardian client:
  collect the entries, sort them by descending count, clamp \<open>n\<close> to the number of entries
  (\<^verbatim>\<open>if n > len(kvList) { n = len(kvList) }\<close>, the function \<open>clamp\<close>) and return
  \<^verbatim>\<open>kvList[:n]\<close>. The clamp is one-sided, so a negative \<open>n\<close> reaches the slice expression
  and panics.
\<close>

definition clamp :: "int \<Rightarrow> nat \<Rightarrow> int" where
  "clamp n len = (if n > int len then int len else n)"

definition getTopN ::
  "KeyValue sorter \<Rightarrow> string list \<Rightarrow> nat \<Rightarrow> (string \<rightharpoonup> int) \<Rightarrow> int
     \<Rightarrow> panic + KeyValue list" where
  "getTopN srt ks spare m n =
     (let kvList = range_entries ks m;
          kvList = srt byValueDesc kvList;
          n = clamp n (length kvList)
      in slice_to kvList spare n)"

subsection \<open>getTopN on a store\<close>

text \<open>
  A Go map is a reference and a slice is a view of a backing array, so what a call may
  change is made explicit here: the store holds the map objects, the backing arrays of
  slices, the next unused array address and everything printed so far.
\<close>

record store =
  maps :: "nat \<Rightarrow> (string \<rightharpoonup> int)"
  arrays :: "nat \<Rightarrow> KeyValue list"
  fresh :: nat
  stdout :: "string list"

text \<open>
  A slice value: \<^verbatim>\<open>nil\<close>, or the first \<open>len\<close> elements of the array at an address. The
  capacity of a slice is the length of its array; a \<^verbatim>\<open>nil\<close> slice has capacity 0.
\<close>

datatype slice = NilSlice | Slice nat nat

fun slice_len :: "slice \<Rightarrow> nat" where
  "slice_len NilSlice = 0"
| "slice_len (Slice a l) = l"

fun slice_contents :: "store \<Rightarrow> slice \<Rightarrow> KeyValue list" where
  "slice_contents s NilSlice = []"
| "slice_contents s (Slice a l) = take l (arrays s a)"

text \<open>
  \<^verbatim>\<open>kvList = append(kvList, x)\<close>. While there is unused capacity the element is written
  into it. Otherwise the array grows: beyond the new element the runtime adds \<open>grow l\<close>
  zero-valued elements of room, \<open>l\<close> being the length before the append; \<open>grow\<close> is the
  growth policy of the runtime and a parameter here. The first append allocates the
  array (the arrays that \<^verbatim>\<open>append\<close> abandons while growing are unreachable and are not
  kept in the store).
\<close>

fun append_st :: "(nat \<Rightarrow> nat) \<Rightarrow> KeyValue \<Rightarrow> slice \<times> store \<Rightarrow> slice \<times> store" where
  "append_st grow x (NilSlice, s) =
     (Slice (fresh s) 1,
      s\<lparr>arrays := (arrays s)(fresh s := x # replicate (grow 0) zeroKeyValue),
        fresh := fresh s + 1\<rparr>)"
| "append_st grow x (Slice a l, s) =
     (Slice a (l + 1),
      s\<lparr>arrays := (arrays s)
           (a := if l < length (arrays s a) then (arrays s a)[l := x]
                 else take l (arrays s a) @ x # replicate (grow l) zeroKeyValue)\<rparr>)"

text \<open>
  The unused capacity after \<open>k\<close> more appends to a slice of length \<open>l\<close> with \<open>sp\<close>
  elements of room, and after \<open>k\<close> appends to a \<^verbatim>\<open>nil\<close> slice.
\<close>

fun spare_after :: "(nat \<Rightarrow> nat) \<Rightarrow> nat \<Rightarrow> nat \<Rightarrow> nat \<Rightarrow> nat" where
  "spare_after grow l sp 0 = sp"
| "spare_after grow l sp (Suc k) =
     spare_after grow (Suc l) (if 0 < sp then sp - 1 else grow l) k"

definition spare_cap :: "(nat \<Rightarrow> nat) \<Rightarrow> nat \<Rightarrow> nat" where
  "spare_cap grow k = spare_after grow 0 0 k"

text \<open>\<^verbatim>\<open>sort.Slice(kvList, less)\<close> rearranges the elements of the slice in place.\<close>

fun sort_Slice_st :: "KeyValue sorter \<Rightarrow> slice \<Rightarrow> store \<Rightarrow> store" where
  "sort_Slice_st srt NilSlice s = s"
| "sort_Slice_st srt (Slice a l) s =
     s\<lparr>arrays := (arrays s)(a := srt byValueDesc (take l (arrays s a)) @ drop l (arrays s a))\<rparr>"

text \<open>
  \<^verbatim>\<open>kvList[:n]\<close> on the store: the same array with a new length when \<open>0 \<le> n \<le> cap(kvList)\<close>,
  a panic otherwise.
\<close>

fun reslice :: "store \<Rightarrow> slice \<Rightarrow> int \<Rightarrow> panic + slice" where
  "reslice s NilSlice n = (if n = 0 then Inr NilSlice else Inl (SliceBoundsOutOfRange n))"
| "reslice s (Slice a l) n =
     (if n < 0 \<or> n > int (length (arrays s a)) then Inl (SliceBoundsOutOfRange n)
      else Inr (Slice a (nat n)))"

text \<open>
  \<^verbatim>\<open>getTopN\<close> statement by statement on the store; \<open>mp\<close> is the reference to the map
  passed as \<^verbatim>\<open>m\<close>.
\<close>

definition getTopN_st ::
  "KeyValue sorter \<Rightarrow> string list \<Rightarrow> (nat \<Rightarrow> nat) \<Rightarrow> nat \<Rightarrow> int \<Rightarrow> store
     \<Rightarrow> (panic + slice) \<times> store" where
  "getTopN_st srt ks grow mp n s =
     (let (kvList, s) = fold (append_st grow) (range_entries ks (maps s mp)) (NilSlice, s);
          s = sort_Slice_st srt kvList s;
          n = clamp n (slice_len kvList)
      in (reslice s kvList n, s))"

section \<open>The API clients\<close>

subsection \<open>Formatting and string helpers of the standard library\<close>

text \<open>The verb \<^verbatim>\<open>%d\<close> of package fmt: the decimal text of an integer.\<close>

fun digits :: "nat \<Rightarrow> string" where
  "digits n = (if n < 10 then [char_of (48 + n)]
               else digits (n div 10) @ [char_of (48 + n mod 10)])"

declare digits.simps [simp del]

definition fmt_d :: "int \<Rightarrow> string" where
  "fmt_d i = (if i < 0 then CHR ''-'' # digits (nat (- i)) else digits (nat i))"

definition nl :: string where
  "nl = [CHR 0x0A]"

text \<open>The letter o with acute accent, as its two UTF-8 bytes.\<close>

definition o_acute :: string where
  "o_acute = [CHR 0xC3, CHR 0xB3]"

definition dquote :: string where
  "dquote = [CHR 0x22]"

text \<open>\<^verbatim>\<open>strings.Join(elems, sep)\<close>.\<close>

fun Join :: "string list \<Rightarrow> string \<Rightarrow> string" where
  "Join [] sep = []"
| "Join [x] sep = x"
| "Join (x # y # ys) sep = x @ sep @ Join (y # ys) sep"

text \<open>
  \<^verbatim>\<open>strings.ReplaceAll(s, old, new)\<close> for a non-empty \<open>old\<close>, as at both call sites:
  the non-overlapping occurrences of \<open>old\<close> are replaced from left to right.
\<close>

function ReplaceAll :: "string \<Rightarrow> string \<Rightarrow> string \<Rightarrow> string" where
  "ReplaceAll s old new =
     (if s = [] \<or> old = [] then s
      else if prefix old s then new @ ReplaceAll (drop (length old) s) old new
      else hd s # ReplaceAll (tl s) old new)"
  by pat_completeness auto
termination
  by (relation "measure (\<lambda>(s, old, new). length s)") (auto simp: neq_Nil_conv)

declare ReplaceAll.simps [simp del]

text \<open>
  \<^verbatim>\<open>url.QueryEscape\<close> and \<^verbatim>\<open>url.Values.Encode\<close>. A \<^verbatim>\<open>url.Values\<close> is kept as the list of
  its \<^verbatim>\<open>Add(key, value)\<close> calls in call order; \<^verbatim>\<open>Encode\<close> writes \<open>key=value\<close> pairs
  joined by \<open>&\<close>, sorted by key, the values of one key in the order they were added.
\<close>

definition shouldEscape :: "char \<Rightarrow> bool" where
  "shouldEscape c \<longleftrightarrow>
     \<not> ((CHR ''a'' \<le> c \<and> c \<le> CHR ''z'') \<or> (CHR ''A'' \<le> c \<and> c \<le> CHR ''Z'') \<or>
        (CHR ''0'' \<le> c \<and> c \<le> CHR ''9'') \<or> c \<in> set ''-_.~'')"

definition upperhex :: "nat \<Rightarrow> char" where
  "upperhex n = ''0123456789ABCDEF'' ! (n mod 16)"

definition QueryEscape :: "string \<Rightarrow> string" where
  "QueryEscape s =
     concat (map (\<lambda>c. if c = CHR '' '' then ''+''
                       else if shouldEscape c
                            then [CHR ''%'', upperhex (of_char c div 16), upperhex (of_char c mod 16)]
                            else [c]) s)"

definition Values_Encode :: "(string \<times> string) list \<Rightarrow> string" where
  "Values_Encode v =
     Join (map (\<lambda>(key, val). QueryEscape key @ ''='' @ QueryEscape val) (sort_key fst v)) ''&''"

text \<open>
  The body preview of a decode failure, the same in the four clients:
  \<^verbatim>\<open>preview := string(body); if len(preview) > 500 { preview = preview[:500] + "..." }\<close>
\<close>

definition preview :: "string \<Rightarrow> string" where
  "preview body = (if length body > 500 then take 500 body @ ''...'' else body)"

subsection \<open>Requests, responses and the outside world\<close>

text \<open>A Go \<^verbatim>\<open>error\<close> is represented by its message (\<^verbatim>\<open>err.Error()\<close>).\<close>

type_synonym go_error = string

record http_request =
  Method :: string
  Request_URL :: string
  Header :: "(string \<times> string) list"

text \<open>
  Of a \<^verbatim>\<open>*http.Response\<close> the clients use the status code and what
  \<^verbatim>\<open>io.ReadAll(resp.Body)\<close> returns: an error or the bytes of the body.
\<close>

record http_response =
  StatusCode :: int
  Body :: "go_error + string"

text \<open>
  Everything the clients call outside their own code is a parameter: the URL encoder,
  \<^verbatim>\<open>http.NewRequest\<close> (which may reject the URL), the HTTP client with its network, and
  \<^verbatim>\<open>json.Unmarshal\<close> into the response struct \<open>'p\<close> of the client.
\<close>

record 'p env =
  Encode :: "(string \<times> string) list \<Rightarrow> string"
  NewRequest :: "string \<Rightarrow> string \<Rightarrow> go_error option"
  Do :: "http_request \<Rightarrow> go_error + http_response"
  Unmarshal :: "string \<Rightarrow> go_error + 'p"

text \<open>What a search function does that can be observed, in order.\<close>

datatype event = Printf string | HttpDo http_request | JsonUnmarshal string

text \<open>A Go result pair \<^verbatim>\<open>(*T, error)\<close>; \<open>None\<close> is \<^verbatim>\<open>nil\<close>.\<close>

type_synonym 'p result = "('p option \<times> go_error option) \<times> event list"

subsection \<open>NewsAPI (news_crawler.go)\<close>

record NewsAPICrawler =
  NewsAPI_BaseURL :: string
  NewsAPI_APIKey :: string

text \<open>\<^verbatim>\<open>finalQuery := fmt.Sprintf(`"Universidad de Antioquia" OR UdeA`)\<close>\<close>

definition NewsAPI_finalQuery :: string where
  "NewsAPI_finalQuery = dquote @ ''Universidad de Antioquia'' @ dquote @ '' OR UdeA''"

definition NewsAPI_params ::
  "string \<Rightarrow> string \<Rightarrow> string \<Rightarrow> string \<Rightarrow> int \<Rightarrow> (string \<times> string) list" where
  "NewsAPI_params queryRaw idiomasCSV fechaInicio fechaFin pageSize =
     [(''q'', NewsAPI_finalQuery),
      (''language'', idiomasCSV),
      (''sortBy'', ''publishedAt''),
      (''pageSize'', fmt_d pageSize),
      (''from'', fechaInicio),
      (''to'', fechaFin)]"

definition NewsAPI_fullURL ::
  "NewsAPIResponse env \<Rightarrow> NewsAPICrawler \<Rightarrow> string \<Rightarrow> string \<Rightarrow> string \<Rightarrow> string \<Rightarrow> int \<Rightarrow> string" where
  "NewsAPI_fullURL e n queryRaw idiomasCSV fechaInicio fechaFin pageSize =
     NewsAPI_BaseURL n @ ''?'' @
     Encode e (NewsAPI_params queryRaw idiomasCSV fechaInicio fechaFin pageSize)"

text \<open>
  \<^verbatim>\<open>BuscarArticulos\<close> of the NewsAPI client. There is no test of \<^verbatim>\<open>resp.StatusCode\<close>:
  the body is decoded whatever the status line says.
\<close>

definition NewsAPI_BuscarArticulos ::
  "NewsAPIResponse env \<Rightarrow> NewsAPICrawler \<Rightarrow> string \<Rightarrow> string \<Rightarrow> string \<Rightarrow> string \<Rightarrow> int
     \<Rightarrow> NewsAPIResponse result" where
  "NewsAPI_BuscarArticulos e n queryRaw idiomasCSV fechaInicio fechaFin pageSize =
     (let finalQuery = NewsAPI_finalQuery;
          fullURL = NewsAPI_fullURL e n queryRaw idiomasCSV fechaInicio fechaFin pageSize;
          log = [Printf (''Consultando NewsAPI...'' @ nl @ ''Query: '' @ finalQuery @ nl @
                         ''Idiomas: '' @ idiomasCSV @ nl @
                         ''Rango: '' @ fechaInicio @ '' a '' @ fechaFin @ nl)]
      in case NewRequest e ''GET'' fullURL of
           Some err \<Rightarrow> ((None, Some err), log)
         | None \<Rightarrow>
            (let req = \<lparr>Method = ''GET'', Request_URL = fullURL,
                        Header = [(''X-Api-Key'', NewsAPI_APIKey n),
                                  (''User-Agent'', ''EthicalCrawlerNews/1.0'')]\<rparr>;
                 log = log @ [HttpDo req]
             in case Do e req of
                  Inl err \<Rightarrow> ((None, Some (''error en petici'' @ o_acute @ ''n: '' @ err)), log)
                | Inr resp \<Rightarrow>
                   (case Body resp of
                      Inl err \<Rightarrow> ((None, Some (''error leyendo respuesta: '' @ err)), log)
                    | Inr body \<Rightarrow>
                       (let log = log @ [JsonUnmarshal body]
                        in case Unmarshal e body of
                             Inl err \<Rightarrow>
                               ((None, Some (''error parseando JSON: '' @ err @ ''. '' @ nl @
                                             ''Respuesta recibida (Inicio):'' @ nl @ preview body)),
                                log)
                           | Inr apiResp \<Rightarrow>
                               if Status apiResp \<noteq> ''ok''
                               then ((None, Some (''error de NewsAPI (Status: '' @ Status apiResp @
                                                  ''). El cuerpo puede tener m'' @ [CHR 0xC3, CHR 0xA1] @
                                                  ''s detalles: '' @ body)), log)
                               else ((Some apiResp, None), log)))))"

subsection \<open>GDELT (gdelt_crawler.go)\<close>

record GDELTCrawler =
  GDELT_BaseURL :: string

definition GDELT_finalQuery :: "string \<Rightarrow> string list \<Rightarrow> string" where
  "GDELT_finalQuery queryRaw idiomas =
     (let langFilters = map (\<lambda>lang. ''sourceLang:'' @ lang) idiomas;
          langSegment = Join langFilters '' OR ''
      in ''('' @ queryRaw @ '') AND ('' @ langSegment @ '')'')"

definition GDELT_params ::
  "string \<Rightarrow> string list \<Rightarrow> string \<Rightarrow> string \<Rightarrow> int \<Rightarrow> (string \<times> string) list" where
  "GDELT_params queryRaw idiomas fechaInicio fechaFin maxRecords =
     [(''query'', GDELT_finalQuery queryRaw idiomas),
      (''mode'', ''artlist''),
      (''maxrecords'', fmt_d maxRecords),
      (''format'', ''json''),
      (''startdatetime'', fechaInicio),
      (''enddatetime'', fechaFin)]"

definition BuscarArticulosMultiLang ::
  "GDELTResponse env \<Rightarrow> GDELTCrawler \<Rightarrow> string \<Rightarrow> string list \<Rightarrow> string \<Rightarrow> string \<Rightarrow> int
     \<Rightarrow> GDELTResponse result" where
  "BuscarArticulosMultiLang e g queryRaw idiomas fechaInicio fechaFin maxRecords =
     (let finalQuery = GDELT_finalQuery queryRaw idiomas;
          fullURL = GDELT_BaseURL g @ ''?'' @
                    Encode e (GDELT_params queryRaw idiomas fechaInicio fechaFin maxRecords);
          log = [Printf (''Consultando GDELT...'' @ nl @ ''Query: '' @ finalQuery @ nl @
                         ''Rango: '' @ fechaInicio @ '' - '' @ fechaFin @ nl)]
      in case NewRequest e ''GET'' fullURL of
           Some err \<Rightarrow> ((None, Some err), log)
         | None \<Rightarrow>
            (let req = \<lparr>Method = ''GET'', Request_URL = fullURL,
                        Header = [(''User-Agent'', ''EthicalCrawler/1.0 (StudentResearch)'')]\<rparr>;
                 log = log @ [HttpDo req]
             in case Do e req of
                  Inl err \<Rightarrow> ((None, Some (''error en petici'' @ o_acute @ ''n: '' @ err)), log)
                | Inr resp \<Rightarrow>
                   (case Body resp of
                      Inl err \<Rightarrow> ((None, Some (''error leyendo respuesta: '' @ err)), log)
                    | Inr body \<Rightarrow>
                       if StatusCode resp \<noteq> 200
                       then ((None, Some (''error HTTP: status code '' @ fmt_d (StatusCode resp) @
                                          '', body: '' @ body)), log)
                       else
                        (let log = log @ [JsonUnmarshal body]
                         in case Unmarshal e body of
                              Inl err \<Rightarrow>
                                ((None, Some (''error parseando JSON: '' @ err @ ''. '' @ nl @
                                              ''Respuesta recibida (Inicio):'' @ nl @ preview body)),
                                 log)
                            | Inr gdeltResp \<Rightarrow> ((Some gdeltResp, None), log)))))"

subsection \<open>The Guardian\<close>

record GuardianArticle =
  Guardian_ID :: string
  Guardian_Type :: string
  SectionName :: string
  WebTitle :: string
  WebUrl :: string
  WebPublicationDate :: string

record GuardianResponseBody =
  Guardian_Status :: string
  Total :: int
  PageSize :: int
  CurrentPage :: int
  Pages :: int
  Results :: "GuardianArticle list"

record GuardianResponse =
  Response :: GuardianResponseBody

record GuardianCrawler =
  Guardian_BaseURL :: string
  Guardian_APIKey :: string

text \<open>
  \<^verbatim>\<open>finalQuery := strings.ReplaceAll(queryRaw, `OR`, `|`)\<close>, then every double quote is
  removed.
\<close>

definition Guardian_finalQuery :: "string \<Rightarrow> string" where
  "Guardian_finalQuery queryRaw = ReplaceAll (ReplaceAll queryRaw ''OR'' ''|'') dquote []"

definition Guardian_params ::
  "GuardianCrawler \<Rightarrow> string \<Rightarrow> string \<Rightarrow> string \<Rightarrow> int \<Rightarrow> (string \<times> string) list" where
  "Guardian_params g queryRaw fechaInicio fechaFin pageSize =
     [(''api-key'', Guardian_APIKey g),
      (''q'', Guardian_finalQuery queryRaw),
      (''type'', ''article''),
      (''page-size'', fmt_d pageSize),
      (''from-date'', fechaInicio),
      (''to-date'', fechaFin)]"

text \<open>
  \<^verbatim>\<open>Client.Get(url)\<close> builds the GET request itself and passes it to \<^verbatim>\<open>Do\<close>; it fails
  without a request when the URL is rejected.
\<close>

definition Client_Get :: "'p env \<Rightarrow> string \<Rightarrow> (go_error + http_response) \<times> event list" where
  "Client_Get e url =
     (case NewRequest e ''GET'' url of
        Some err \<Rightarrow> (Inl err, [])
      | None \<Rightarrow> (let req = \<lparr>Method = ''GET'', Request_URL = url, Header = []\<rparr>
                 in (Do e req, [HttpDo req])))"

definition Guardian_BuscarArticulos ::
  "GuardianResponse env \<Rightarrow> GuardianCrawler \<Rightarrow> string \<Rightarrow> string \<Rightarrow> string \<Rightarrow> int
     \<Rightarrow> GuardianResponse result" where
  "Guardian_BuscarArticulos e g queryRaw fechaInicio fechaFin pageSize =
     (let finalQuery = Guardian_finalQuery queryRaw;
          fullURL = Guardian_BaseURL g @ ''?'' @
                    Encode e (Guardian_params g queryRaw fechaInicio fechaFin pageSize);
          log = [Printf (''Consultando The Guardian...'' @ nl @ ''Query: '' @ finalQuery @ nl @
                         ''Rango: '' @ fechaInicio @ '' a '' @ fechaFin @ nl)];
          (got, sent) = Client_Get e fullURL;
          log = log @ sent
      in case got of
           Inl err \<Rightarrow> ((None, Some (''error en petici'' @ o_acute @ ''n: '' @ err)), log)
         | Inr resp \<Rightarrow>
            (case Body resp of
               Inl err \<Rightarrow> ((None, Some (''error leyendo respuesta: '' @ err)), log)
             | Inr body \<Rightarrow>
                if StatusCode resp \<noteq> 200
                then ((None, Some (''error HTTP: status code '' @ fmt_d (StatusCode resp) @
                                   '', body: '' @ body)), log)
                else
                 (let log = log @ [JsonUnmarshal body]
                  in case Unmarshal e body of
                       Inl err \<Rightarrow>
                         ((None, Some (''error parseando JSON: '' @ err @
                                       ''. Respuesta recibida (Inicio):'' @ nl @ preview body)),
                          log)
                     | Inr apiResp \<Rightarrow>
                         if Guardian_Status (Response apiResp) \<noteq> ''ok''
                         then ((None, Some (''error de Guardian API (Status: '' @
                                            Guardian_Status (Response apiResp) @ '').'')), log)
                         else ((Some apiResp, None), log))))"

subsection \<open>X\<close>

record PublicMetrics =
  RetweetCount :: int
  LikeCount :: int
  ReplyCount :: int
  QuoteCount :: int

record Tweet =
  Tweet_ID :: string
  Text :: string
  CreatedAt :: string
  Tweet_PublicMetrics :: PublicMetrics

record XMeta =
  NewestID :: string
  OldestID :: string
  ResultCount :: int
  NextToken :: string

record XResponse =
  Data :: "Tweet list"
  Meta :: XMeta

record XCrawler =
  X_BaseURL :: string
  BearerToken :: string

definition X_finalQuery :: "string \<Rightarrow> string" where
  "X_finalQuery queryRaw =
     ''('' @ queryRaw @ '') investigaci'' @ o_acute @ ''n lang:es -is:retweet''"

definition X_params :: "string \<Rightarrow> int \<Rightarrow> string \<Rightarrow> string \<Rightarrow> (string \<times> string) list" where
  "X_params queryRaw maxResults startTime endTime =
     [(''query'', X_finalQuery queryRaw),
      (''tweet.fields'', ''created_at,public_metrics''),
      (''max_results'', fmt_d maxResults),
      (''start_time'', startTime),
      (''end_time'', endTime)]"

definition BuscarTweets ::
  "XResponse env \<Rightarrow> XCrawler \<Rightarrow> string \<Rightarrow> int \<Rightarrow> string \<Rightarrow> string \<Rightarrow> XResponse result" where
  "BuscarTweets e x queryRaw maxResults startTime endTime =
     (let finalQuery = X_finalQuery queryRaw;
          fullURL = X_BaseURL x @ ''?'' @
                    Encode e (X_params queryRaw maxResults startTime endTime);
          log = [Printf (''Consultando X (Reciente)...'' @ nl @ ''Query: '' @ finalQuery @ nl @
                         ''Rango: '' @ startTime @ '' a '' @ endTime @ nl)]
      in case NewRequest e ''GET'' fullURL of
           Some err \<Rightarrow> ((None, Some err), log)
         | None \<Rightarrow>
            (let req = \<lparr>Method = ''GET'', Request_URL = fullURL,
                        Header = [(''Authorization'', ''Bearer '' @ BearerToken x),
                                  (''User-Agent'', ''EthicalXCrawler/1.0 (StudentResearch)'')]\<rparr>;
                 log = log @ [HttpDo req]
             in case Do e req of
                  Inl err \<Rightarrow> ((None, Some (''error en petici'' @ o_acute @ ''n: '' @ err)), log)
                | Inr resp \<Rightarrow>
                   (case Body resp of
                      Inl err \<Rightarrow> ((None, Some (''error leyendo respuesta: '' @ err)), log)
                    | Inr body \<Rightarrow>
                       if StatusCode resp \<noteq> 200
                       then ((None, Some (''error HTTP: status code '' @ fmt_d (StatusCode resp) @
                                          ''. Respuesta de X:'' @ nl @ body)), log)
                       else
                        (let log = log @ [JsonUnmarshal body]
                         in case Unmarshal e body of
                              Inl err \<Rightarrow>
                                ((None, Some (''error parseando JSON: '' @ err @
                                              ''. Respuesta recibida:'' @ nl @ preview body)),
                                 log)
                            | Inr apiResp \<Rightarrow> ((Some apiResp, None), log)))))"

section \<open>Concrete inputs\<close>

text \<open>A NewsAPI article that carries nothing but the name of its source.\<close>

definition article_of :: "string \<Rightarrow> NewsAPIArticle" where
  "article_of name = \<lparr>Source = \<lparr>Name = name\<rparr>, Author = [], Title = [], URL = [],
                        PublishedAt = [], Content = []\<rparr>"


text \<open>
  An outside world in which every URL is accepted, the server answers every request with
  the status \<open>code\<close> and the body \<open>body\<close>, and decoding gives \<open>decoded\<close>.
\<close>

definition canned_env :: "int \<Rightarrow> string \<Rightarrow> go_error + 'p \<Rightarrow> 'p env" where
  "canned_env code body decoded =
     \<lparr>Encode = Values_Encode,
      NewRequest = (\<lambda>method url. None),
      Do = (\<lambda>req. Inr \<lparr>StatusCode = code, Body = Inr body\<rparr>),
      Unmarshal = (\<lambda>data. decoded)\<rparr>"

text \<open>The constructors of the clients, with their base URLs.\<close>

definition NewNewsAPICrawler :: "string \<Rightarrow> NewsAPICrawler" where
  "NewNewsAPICrawler apiKey =
     \<lparr>NewsAPI_BaseURL = ''https://newsapi.org/v2/everything'', NewsAPI_APIKey = apiKey\<rparr>"

definition NewGDELTCrawler :: GDELTCrawler where
  "NewGDELTCrawler = \<lparr>GDELT_BaseURL = ''https://api.gdeltproject.org/api/v2/doc/doc''\<rparr>"

definition NewGuardianCrawler :: "string \<Rightarrow> GuardianCrawler" where
  "NewGuardianCrawler apiKey =
     \<lparr>Guardian_BaseURL = ''https://content.guardianapis.com/search'', Guardian_APIKey = apiKey\<rparr>"

definition NewXCrawler :: "string \<Rightarrow> XCrawler" where
  "NewXCrawler bearerToken =
     \<lparr>X_BaseURL = ''https://api.twitter.com/2/tweets/search/recent'', BearerToken = bearerToken\<rparr>"

text \<open>The number of requests sent during a call.\<close>

fun is_HttpDo :: "event \<Rightarrow> bool" where
  "is_HttpDo (HttpDo req) = True"
| "is_HttpDo ev = False"

definition requests_sent :: "event list \<Rightarrow> nat" where
  "requests_sent log = length (filter is_HttpDo log)"

text \<open>
  The growth of a runtime that doubles the capacity of a full slice: appending to
  length 0 and 1 leaves no room, appending to a full slice of length \<open>l \<ge> 2\<close> leaves
  \<open>l - 1\<close>. After three appends the capacity is 4.
\<close>

definition doubling :: "nat \<Rightarrow> nat" where
  "doubling l = (if l < 2 then 0 else l - 1)"

text \<open>
  A store in which map 0 is the table of the scenario, one array is already allocated
  and one line has been printed.
\<close>

definition store0 :: store where
  "store0 = \<lparr>maps = (\<lambda>r. if r = 0 then [''A'' \<mapsto> 3, ''B'' \<mapsto> 2, ''C'' \<mapsto> 1] else Map.empty),
             arrays = (\<lambda>a. if a = 0 then [\<lparr>Key = ''Z'', Value = 9\<rparr>] else []),
             fresh = 1,
             stdout = [''Top 10 Fuentes:'']\<rparr>"

text \<open>
  Payloads whose embedded status is not "ok", the body NewsAPI sends with the status 429,
  a call of the NewsAPI client answered that way, a body of The Guardian with the status
  "error", a body of 600 bytes that is no JSON with the error of the decoder on it, and
  a world that answers 200 with that body.
\<close>

definition NewsAPI_error_payload :: NewsAPIResponse where
  "NewsAPI_error_payload = \<lparr>Status = ''error'', TotalResults = 0, Articles = []\<rparr>"

definition Guardian_error_payload :: GuardianResponse where
  "Guardian_error_payload =
     \<lparr>Response = \<lparr>Guardian_Status = ''error'', Total = 0, PageSize = 0, CurrentPage = 0,
                   Pages = 0, Results = []\<rparr>\<rparr>"

definition rate_limited_body :: string where
  "rate_limited_body =
     ''{'' @ dquote @ ''status'' @ dquote @ '':'' @ dquote @ ''error'' @ dquote @ '','' @
     dquote @ ''code'' @ dquote @ '':'' @ dquote @ ''rateLimited'' @ dquote @ ''}''"

definition Guardian_error_body :: string where
  "Guardian_error_body =
     ''{'' @ dquote @ ''response'' @ dquote @ '':{'' @ dquote @ ''status'' @ dquote @ '':'' @
     dquote @ ''error'' @ dquote @ ''}}''"

definition rate_limited_call :: "NewsAPIResponse result" where
  "rate_limited_call =
     NewsAPI_BuscarArticulos (canned_env 429 rate_limited_body (Inr NewsAPI_error_payload))
       (NewNewsAPICrawler ''k'') ''UdeA'' ''es,en'' ''2026-01-01T00:00:00''
       ''2026-01-31T00:00:00'' 50"

definition long_body :: string where
  "long_body = replicate 600 (CHR ''<'')"

definition json_syntax_error :: go_error where
  "json_syntax_error =
     ''invalid character '' @ [CHR 0x27] @ ''<'' @ [CHR 0x27] @ '' looking for beginning of value''"

definition broken_json_env :: "'p env" where
  "broken_json_env = canned_env 200 long_body (Inl json_syntax_error)"

section \<open>Properties of the ranking\<close>

subsection \<open>The insertion sort meets the contract of sort.Slice\<close>

lemma mset_sink: "mset (sink lt x ys) = add_mset x (mset ys)"
  by (induction ys) auto

lemma mset_fold_sink: "mset (fold (sink lt) xs acc) = mset xs + mset acc"
  by (induction xs arbitrary: acc) (auto simp: mset_sink)

lemma set_sink: "set (sink lt x ys) = insert x (set ys)"
  by (induction ys) auto

lemma sorted_sink:
  "sorted_wrt (\<lambda>a b. Value a \<le> Value b) ys \<Longrightarrow>
   sorted_wrt (\<lambda>a b. Value a \<le> Value b) (sink byValueDesc x ys)"
  by (induction ys) (auto simp: set_sink byValueDesc_def)

lemma sorted_fold_sink:
  "sorted_wrt (\<lambda>a b. Value a \<le> Value b) acc \<Longrightarrow>
   sorted_wrt (\<lambda>a b. Value a \<le> Value b) (fold (sink byValueDesc) xs acc)"
  by (induction xs arbitrary: acc) (auto simp: sorted_sink)

lemma insertionSort_contract: "sort_Slice_contract insertionSort byValueDesc"
  unfolding sort_Slice_contract_def insertionSort_def
  using sorted_fold_sink [of "[]"]
  by (auto simp: mset_fold_sink sorted_wrt_rev byValueDesc_def not_less)

lemma sort_Slice_length:
  "sort_Slice_contract srt lt \<Longrightarrow> length (srt lt xs) = length xs"
  unfolding sort_Slice_contract_def by (metis mset_eq_length)

lemma sort_Slice_sorted:
  "sort_Slice_contract srt byValueDesc \<Longrightarrow>
   sorted_wrt (\<lambda>a b. Value a \<ge> Value b) (srt byValueDesc xs)"
  unfolding sort_Slice_contract_def byValueDesc_def by (simp add: not_less)

subsection \<open>Entries of a map\<close>

lemma range_entries_map:
  "set ks \<subseteq> dom m \<Longrightarrow>
   range_entries ks m = map (\<lambda>k. \<lparr>Key = k, Value = the (m k)\<rparr>) ks"
  unfolding range_entries_def
  by (induction ks) (auto simp: map_filter_simps)

lemma length_range_entries:
  "range_order m ks \<Longrightarrow> length (range_entries ks m) = card (dom m)"
  unfolding range_order_def
  by (simp add: range_entries_map distinct_card [symmetric])

lemma mset_range_entries:
  assumes "range_order m ks" and "distinct ks'" and "set ks' = dom m"
  shows "mset (range_entries ks m) = mset (map (\<lambda>k. \<lparr>Key = k, Value = the (m k)\<rparr>) ks')"
proof -
  have "mset ks = mset ks'"
    using assms unfolding range_order_def
    by (simp add: set_eq_iff_mset_eq_distinct [symmetric])
  moreover have "range_entries ks m = map (\<lambda>k. \<lparr>Key = k, Value = the (m k)\<rparr>) ks"
    using assms(1) unfolding range_order_def by (simp add: range_entries_map)
  ultimately show ?thesis by (metis mset_map)
qed

text \<open>A list sorted by descending count is determined by its elements when no two counts agree.\<close>

lemma sorted_desc_unique:
  fixes f :: "'a \<Rightarrow> int"
  shows "sorted_wrt (\<lambda>x y. f x > f y) ys \<Longrightarrow> sorted_wrt (\<lambda>x y. f x \<ge> f y) xs \<Longrightarrow>
         mset xs = mset ys \<Longrightarrow> xs = ys"
proof (induction ys arbitrary: xs)
  case Nil
  then show ?case by simp
next
  case (Cons y ys)
  from Cons.prems(3) have "xs \<noteq> []" by auto
  then obtain x xs' where xs: "xs = x # xs'" by (cases xs) auto
  have "y \<in> set xs"
    using Cons.prems(3) by (metis list.set_intros(1) mset_eq_setD)
  then have ge: "f x \<ge> f y"
    using Cons.prems(2) unfolding xs by auto
  have "x \<in> set (y # ys)"
    using Cons.prems(3) unfolding xs by (metis list.set_intros(1) mset_eq_setD)
  then have "x = y"
    using Cons.prems(1) ge by auto
  then have "mset xs' = mset ys"
    using Cons.prems(3) unfolding xs by simp
  moreover have "sorted_wrt (\<lambda>x y. f x > f y) ys" using Cons.prems(1) by simp
  moreover have "sorted_wrt (\<lambda>x y. f x \<ge> f y) xs'" using Cons.prems(2) unfolding xs by simp
  ultimately have "xs' = ys" using Cons.IH by blast
  then show ?case using \<open>x = y\<close> xs by simp
qed

lemma fuentes_names:
  "fuentes articles =
     fold (\<lambda>k m. incr m k) (map (\<lambda>art. Name (Source art)) articles) Map.empty"
  by (simp add: fuentes_def fold_map comp_def)

lemma fuentes_scenario:
  "fuentes (map article_of [''A'', ''B'', ''A'', ''C'', ''A'', ''B'']) =
     [''A'' \<mapsto> 3, ''B'' \<mapsto> 2, ''C'' \<mapsto> 1]"
  unfolding fuentes_names by (simp add: incr_def fun_eq_iff article_of_def)

text \<open>
  Without the clamp the slice expression would fail or pad: on three entries with one
  element of room, a bound of 7 panics and a bound of 4 returns a zero value as fourth
  entry.
\<close>

lemma slice_to_beyond_capacity:
  "slice_to [a, b, c] 1 7 = Inl (SliceBoundsOutOfRange 7)"
  by (simp add: slice_to_def)

lemma slice_to_into_capacity:
  "slice_to [a, b, c] 1 4 = Inr [a, b, c, zeroKeyValue]"
  by (simp add: slice_to_def)

text \<open>After the clamp the slice expression stays within the elements.\<close>

lemma slice_to_clamp:
  "0 \<le> n \<Longrightarrow> slice_to xs spare (clamp n (length xs)) = Inr (take (nat n) xs)"
  by (simp add: slice_to_def clamp_def)

lemma getTopN_nonneg:
  "0 \<le> n \<Longrightarrow>
   getTopN srt ks spare m n = Inr (take (nat n) (srt byValueDesc (range_entries ks m)))"
  by (simp add: getTopN_def Let_def slice_to_clamp)

lemma range_entries_in_map:
  "kv \<in> set (range_entries ks m) \<Longrightarrow> m (Key kv) = Some (Value kv)"
  unfolding range_entries_def
  by (induction ks) (auto simp: map_filter_simps split: option.splits)

lemma getTopN_example:
  "getTopN insertionSort [''C'', ''A'', ''B''] spare [''A'' \<mapsto> 3, ''B'' \<mapsto> 2, ''C'' \<mapsto> 1] 2 =
     Inr [\<lparr>Key = ''A'', Value = 3\<rparr>, \<lparr>Key = ''B'', Value = 2\<rparr>]"
  by (simp add: getTopN_def slice_to_def range_entries_def map_filter_simps insertionSort_def
      byValueDesc_def clamp_def)

subsection \<open>The claims about getTopN\<close>

text \<open>
  C3. Six records whose source names are A, B, A, C, A, B: the table built by the counting
  loop, ranked with \<open>n = 2\<close>, gives exactly (A, 3) followed by (B, 2), whatever order the
  runtime iterates the map in, whatever capacity it gave the slice and whatever correct
  sort is used.
\<close>

theorem topN_scenario:
  assumes c: "sort_Slice_contract srt byValueDesc"
    and r: "range_order (fuentes articles) ks"
    and a: "map (\<lambda>art. Name (Source art)) articles = [''A'', ''B'', ''A'', ''C'', ''A'', ''B'']"
  shows "getTopN srt ks spare (fuentes articles) 2 =
           Inr [\<lparr>Key = ''A'', Value = 3\<rparr>, \<lparr>Key = ''B'', Value = 2\<rparr>]"
proof -
  let ?m = "fuentes articles"
  let ?abc = "[\<lparr>Key = ''A'', Value = 3\<rparr>, \<lparr>Key = ''B'', Value = 2\<rparr>, \<lparr>Key = ''C'', Value = 1\<rparr>]"
  have m: "?m = [''A'' \<mapsto> 3, ''B'' \<mapsto> 2, ''C'' \<mapsto> 1]"
    unfolding fuentes_names a by (simp add: incr_def fun_eq_iff)
  have d: "set [''A'', ''B'', ''C''] = dom ?m"
    unfolding m by auto
  have "mset (range_entries ks ?m) =
          mset (map (\<lambda>k. \<lparr>Key = k, Value = the (?m k)\<rparr>) [''A'', ''B'', ''C''])"
    by (rule mset_range_entries [OF r _ d]) simp
  also have "map (\<lambda>k. \<lparr>Key = k, Value = the (?m k)\<rparr>) [''A'', ''B'', ''C''] = ?abc"
    unfolding m by simp
  finally have e: "mset (range_entries ks ?m) = mset ?abc" .
  let ?s = "srt byValueDesc (range_entries ks ?m)"
  have "mset ?s = mset ?abc"
    using c e unfolding sort_Slice_contract_def by simp
  moreover have "sorted_wrt (\<lambda>a b. Value a \<ge> Value b) ?s"
    by (rule sort_Slice_sorted [OF c])
  moreover have "sorted_wrt (\<lambda>a b. Value a > Value b) ?abc" by simp
  ultimately have "?s = ?abc"
    using sorted_desc_unique [of Value ?abc ?s] by blast
  then show ?thesis
    by (simp add: getTopN_def Let_def clamp_def slice_to_def)
qed

theorem topN_scenario_witness:
  "getTopN insertionSort [''C'', ''A'', ''B''] 1
     (fuentes (map article_of [''A'', ''B'', ''A'', ''C'', ''A'', ''B''])) 2 =
   Inr [\<lparr>Key = ''A'', Value = 3\<rparr>, \<lparr>Key = ''B'', Value = 2\<rparr>]"
proof -
  let ?arts = "map article_of [''A'', ''B'', ''A'', ''C'', ''A'', ''B'']"
  have a: "map (\<lambda>art. Name (Source art)) ?arts = [''A'', ''B'', ''A'', ''C'', ''A'', ''B'']"
    by (simp add: article_of_def)
  have r: "range_order (fuentes ?arts) [''C'', ''A'', ''B'']"
    unfolding fuentes_scenario range_order_def by auto
  show ?thesis
    by (rule topN_scenario [OF insertionSort_contract r a])
qed

text \<open>
  C4. For every frequency map and every \<open>n \<ge> 0\<close>, \<^verbatim>\<open>getTopN\<close> returns a list whose counts
  never increase from one entry to the next.
\<close>

theorem getTopN_non_increasing:
  assumes "sort_Slice_contract srt byValueDesc" and "0 \<le> n"
  shows "\<exists>r. getTopN srt ks spare m n = Inr r \<and> sorted_wrt (\<lambda>a b. Value a \<ge> Value b) r"
  using sort_Slice_sorted [OF assms(1), of "range_entries ks m"]
  by (simp add: getTopN_nonneg [OF assms(2)] sorted_wrt_take)

theorem getTopN_non_increasing_witness:
  "sort_Slice_contract insertionSort byValueDesc \<and> (0::int) \<le> 2 \<and>
   (\<exists>r. getTopN insertionSort [''C'', ''A'', ''B''] 1 [''A'' \<mapsto> 3, ''B'' \<mapsto> 2, ''C'' \<mapsto> 1] 2 = Inr r \<and>
        r = [\<lparr>Key = ''A'', Value = 3\<rparr>, \<lparr>Key = ''B'', Value = 2\<rparr>] \<and>
        sorted_wrt (\<lambda>a b. Value a \<ge> Value b) r)"
  using getTopN_non_increasing [OF insertionSort_contract, of 2 "[''C'', ''A'', ''B'']" 1
      "[''A'' \<mapsto> 3, ''B'' \<mapsto> 2, ''C'' \<mapsto> 1]"]
    insertionSort_contract
  by (simp add: getTopN_example)

text \<open>
  C5. For every frequency map and every \<open>n \<ge> 0\<close>, whatever capacity the runtime gave the
  slice, \<^verbatim>\<open>getTopN\<close> returns without error a list of length \<open>min n (number of distinct keys)\<close>
  in which every entry is an entry of the map: nothing is padded, an empty map gives the
  empty list and so does \<open>n = 0\<close>.
\<close>

theorem getTopN_length:
  assumes "sort_Slice_contract srt byValueDesc" and "range_order m ks" and "0 \<le> n"
  shows "\<exists>r. getTopN srt ks spare m n = Inr r \<and> length r = min (nat n) (card (dom m)) \<and>
             (\<forall>kv \<in> set r. m (Key kv) = Some (Value kv)) \<and>
             (m = Map.empty \<longrightarrow> r = []) \<and> (n = 0 \<longrightarrow> r = [])"
proof -
  let ?s = "srt byValueDesc (range_entries ks m)"
  have g: "getTopN srt ks spare m n = Inr (take (nat n) ?s)"
    by (rule getTopN_nonneg [OF assms(3)])
  have l: "length ?s = card (dom m)"
    using sort_Slice_length [OF assms(1)] length_range_entries [OF assms(2)] by simp
  have "set ?s = set (range_entries ks m)"
    using assms(1) unfolding sort_Slice_contract_def by (metis mset_eq_setD)
  then have e: "\<forall>kv \<in> set (take (nat n) ?s). m (Key kv) = Some (Value kv)"
    using range_entries_in_map [of _ ks m] by (auto dest: in_set_takeD)
  have "length (take (nat n) ?s) = min (nat n) (card (dom m))"
    using l by simp
  moreover have "m = Map.empty \<longrightarrow> take (nat n) ?s = []"
    using l by auto
  ultimately show ?thesis
    using g e by simp
qed

theorem getTopN_length_witness:
  "range_order [''A'' \<mapsto> 3, ''B'' \<mapsto> 2, ''C'' \<mapsto> 1] [''C'', ''A'', ''B''] \<and>
   (\<exists>r. getTopN insertionSort [''C'', ''A'', ''B''] 1 [''A'' \<mapsto> 3, ''B'' \<mapsto> 2, ''C'' \<mapsto> 1] 4 = Inr r \<and>
        length r = 3) \<and>
   (\<exists>r. getTopN insertionSort [''C'', ''A'', ''B''] 1 [''A'' \<mapsto> 3, ''B'' \<mapsto> 2, ''C'' \<mapsto> 1] 7 = Inr r \<and>
        length r = 3) \<and>
   getTopN insertionSort [] 0 Map.empty 5 = Inr [] \<and>
   getTopN insertionSort [''C'', ''A'', ''B''] 1 [''A'' \<mapsto> 3, ''B'' \<mapsto> 2, ''C'' \<mapsto> 1] 0 = Inr []"
proof -
  let ?m = "[''A'' \<mapsto> (3::int), ''B'' \<mapsto> 2, ''C'' \<mapsto> 1]"
  have r: "range_order ?m [''C'', ''A'', ''B'']"
    unfolding range_order_def by auto
  have e: "range_order Map.empty []"
    unfolding range_order_def by simp
  have c: "card (dom ?m) = 3" by simp
  show ?thesis
    using getTopN_length [OF insertionSort_contract r, of 4 1]
      getTopN_length [OF insertionSort_contract r, of 7 1]
      getTopN_length [OF insertionSort_contract e, of 5 0]
      getTopN_length [OF insertionSort_contract r, of 0 1] r c
    by auto
qed

text \<open>
  C10. When \<open>n \<ge> 0\<close> the bound of the slice expression, after the clamp, lies between 0
  and the length of the entry list, so \<^verbatim>\<open>getTopN\<close> returns; the clamp does not cover a
  negative \<open>n\<close>, for which the slice expression panics.
\<close>

theorem getTopN_slice_bounds:
  "(0 \<le> n \<longrightarrow>
      0 \<le> clamp n (length (srt byValueDesc (range_entries ks m))) \<and>
      clamp n (length (srt byValueDesc (range_entries ks m)))
        \<le> int (length (srt byValueDesc (range_entries ks m))) \<and>
      (\<exists>r. getTopN srt ks spare m n = Inr r)) \<and>
   (n < 0 \<longrightarrow> getTopN srt ks spare m n = Inl (SliceBoundsOutOfRange n))"
  by (auto simp: getTopN_def Let_def clamp_def slice_to_def)

theorem getTopN_slice_bounds_witness:
  "(\<exists>r. getTopN insertionSort [''C'', ''A'', ''B''] 1 [''A'' \<mapsto> 3, ''B'' \<mapsto> 2, ''C'' \<mapsto> 1] 7 = Inr r) \<and>
   getTopN insertionSort [''C'', ''A'', ''B''] 1 [''A'' \<mapsto> 3, ''B'' \<mapsto> 2, ''C'' \<mapsto> 1] (- 1)
     = Inl (SliceBoundsOutOfRange (- 1))"
  using getTopN_slice_bounds [of 7 insertionSort "[''C'', ''A'', ''B'']"
      "[''A'' \<mapsto> 3, ''B'' \<mapsto> 2, ''C'' \<mapsto> 1]" 1]
    getTopN_slice_bounds [of "- 1" insertionSort "[''C'', ''A'', ''B'']"
      "[''A'' \<mapsto> 3, ''B'' \<mapsto> 2, ''C'' \<mapsto> 1]" 1]
  by simp

section \<open>Properties of the frequency tables\<close>









section \<open>Effects of getTopN\<close>

lemma fold_append_st_Slice:
  "arrays s a = ys @ replicate sp zeroKeyValue \<Longrightarrow> length ys = l \<Longrightarrow>
   fold (append_st grow) xs (Slice a l, s) =
     (Slice a (l + length xs),
      s\<lparr>arrays := (arrays s)
           (a := ys @ xs @ replicate (spare_after grow l sp (length xs)) zeroKeyValue)\<rparr>)"
proof (induction xs arbitrary: ys l sp s)
  case Nil
  have "(arrays s)(a := ys @ replicate sp zeroKeyValue) = arrays s"
    using Nil.prems(1) by auto
  then show ?case by simp
next
  case (Cons x xs)
  let ?sp = "if 0 < sp then sp - 1 else grow l"
  let ?s = "s\<lparr>arrays := (arrays s)(a := (ys @ [x]) @ replicate ?sp zeroKeyValue)\<rparr>"
  have step: "append_st grow x (Slice a l, s) = (Slice a (Suc l), ?s)"
  proof (cases "0 < sp")
    case True
    then obtain k where k: "sp = Suc k" by (cases sp) auto
    show ?thesis
      using Cons.prems by (simp add: k list_update_append)
  next
    case False
    then show ?thesis using Cons.prems by simp
  qed
  have "fold (append_st grow) (x # xs) (Slice a l, s) =
          fold (append_st grow) xs (Slice a (Suc l), ?s)"
    by (simp only: fold_Cons comp_apply step)
  also have "\<dots> =
          (Slice a (Suc l + length xs),
           ?s\<lparr>arrays := (arrays ?s)
                (a := (ys @ [x]) @ xs @
                      replicate (spare_after grow (Suc l) ?sp (length xs)) zeroKeyValue)\<rparr>)"
    by (rule Cons.IH) (use Cons.prems in simp_all)
  also have "\<dots> =
          (Slice a (l + length (x # xs)),
           s\<lparr>arrays := (arrays s)
                (a := ys @ (x # xs) @
                      replicate (spare_after grow l sp (length (x # xs))) zeroKeyValue)\<rparr>)"
    by simp
  finally show ?case .
qed

lemma fold_append_st_Nil:
  "fold (append_st grow) xs (NilSlice, s) =
     (if xs = [] then (NilSlice, s)
      else (Slice (fresh s) (length xs),
            s\<lparr>arrays := (arrays s)
                 (fresh s := xs @ replicate (spare_cap grow (length xs)) zeroKeyValue),
              fresh := fresh s + 1\<rparr>))"
proof (cases xs)
  case Nil
  then show ?thesis by simp
next
  case (Cons x xs')
  let ?s = "s\<lparr>arrays := (arrays s)(fresh s := x # replicate (grow 0) zeroKeyValue),
               fresh := fresh s + 1\<rparr>"
  have "fold (append_st grow) xs' (Slice (fresh s) 1, ?s) =
          (Slice (fresh s) (1 + length xs'),
           ?s\<lparr>arrays := (arrays ?s)
                (fresh s := [x] @ xs' @
                            replicate (spare_after grow 1 (grow 0) (length xs')) zeroKeyValue)\<rparr>)"
    by (rule fold_append_st_Slice) simp_all
  then show ?thesis
    by (simp add: Cons spare_cap_def)
qed

text \<open>
  The slice returned on the store holds what the function on values returns, for the
  capacity that the growth policy leaves after the appends of the loop.
\<close>

lemma getTopN_st_result:
  assumes "sort_Slice_contract srt byValueDesc"
  shows "map_sum id (slice_contents (snd (getTopN_st srt ks grow mp n s)))
           (fst (getTopN_st srt ks grow mp n s))
         = getTopN srt ks (spare_cap grow (length (range_entries ks (maps s mp)))) (maps s mp) n"
proof (cases "range_entries ks (maps s mp) = []")
  case True
  have "srt byValueDesc [] = []"
    using sort_Slice_length [OF assms, of "[]"] by simp
  then show ?thesis
    using True
    by (auto simp: getTopN_st_def getTopN_def fold_append_st_Nil Let_def clamp_def slice_to_def
        spare_cap_def)
next
  case False
  then show ?thesis
    using sort_Slice_length [OF assms, of "range_entries ks (maps s mp)"]
    by (auto simp: getTopN_st_def getTopN_def fold_append_st_Nil Let_def slice_to_def)
qed

text \<open>
  C8. A call of \<^verbatim>\<open>getTopN\<close> leaves every map of the store as it was, the map passed as
  \<open>m\<close> among them, prints nothing, and writes to no array that existed before the call:
  all it touches is the array it allocates for its result.
\<close>

theorem getTopN_st_frame:
  "maps (snd (getTopN_st srt ks grow mp n s)) = maps s \<and>
   stdout (snd (getTopN_st srt ks grow mp n s)) = stdout s \<and>
   (\<forall>a. a < fresh s \<longrightarrow> arrays (snd (getTopN_st srt ks grow mp n s)) a = arrays s a)"
  by (simp add: getTopN_st_def fold_append_st_Nil Let_def)

theorem getTopN_st_frame_witness:
  "(0::nat) < fresh store0 \<and>
   maps (snd (getTopN_st insertionSort [''C'', ''A'', ''B''] doubling 0 2 store0)) 0
     = [''A'' \<mapsto> 3, ''B'' \<mapsto> 2, ''C'' \<mapsto> 1] \<and>
   stdout (snd (getTopN_st insertionSort [''C'', ''A'', ''B''] doubling 0 2 store0))
     = [''Top 10 Fuentes:''] \<and>
   arrays (snd (getTopN_st insertionSort [''C'', ''A'', ''B''] doubling 0 2 store0)) 0
     = [\<lparr>Key = ''Z'', Value = 9\<rparr>]"
  using getTopN_st_frame [of insertionSort "[''C'', ''A'', ''B'']" doubling 0 2 store0]
  by (simp add: store0_def)

section \<open>Properties of the API clients\<close>

subsection \<open>The HTTP status\<close>

text \<open>
  GDELT, The Guardian and X test \<^verbatim>\<open>resp.StatusCode != http.StatusOK\<close> before decoding: any
  status other than 200 ends the call with an error that holds the status code, and the
  body is never handed to the decoder.
\<close>

lemma GDELT_http_status_short_circuit:
  assumes "NewRequest e = (\<lambda>method url. None)" and "Do e = (\<lambda>req. Inr resp)"
    and "Body resp = Inr body" and "StatusCode resp \<noteq> 200"
  shows "\<exists>msg. fst (BuscarArticulosMultiLang e g q ls f t mx) = (None, Some msg) \<and>
               sublist (fmt_d (StatusCode resp)) msg \<and>
               JsonUnmarshal body \<notin> set (snd (BuscarArticulosMultiLang e g q ls f t mx))"
  using assms sublist_appendI [of "fmt_d (StatusCode resp)" "''error HTTP: status code ''" "'', body: '' @ body"]
  by (simp add: BuscarArticulosMultiLang_def Let_def)

lemma Guardian_http_status_short_circuit:
  assumes "NewRequest e = (\<lambda>method url. None)" and "Do e = (\<lambda>req. Inr resp)"
    and "Body resp = Inr body" and "StatusCode resp \<noteq> 200"
  shows "\<exists>msg. fst (Guardian_BuscarArticulos e g q f t ps) = (None, Some msg) \<and>
               sublist (fmt_d (StatusCode resp)) msg \<and>
               JsonUnmarshal body \<notin> set (snd (Guardian_BuscarArticulos e g q f t ps))"
  using assms sublist_appendI [of "fmt_d (StatusCode resp)" "''error HTTP: status code ''" "'', body: '' @ body"]
  by (simp add: Guardian_BuscarArticulos_def Client_Get_def Let_def)

lemma X_http_status_short_circuit:
  assumes "NewRequest e = (\<lambda>method url. None)" and "Do e = (\<lambda>req. Inr resp)"
    and "Body resp = Inr body" and "StatusCode resp \<noteq> 200"
  shows "\<exists>msg. fst (BuscarTweets e x q mx st en) = (None, Some msg) \<and>
               sublist (fmt_d (StatusCode resp)) msg \<and>
               JsonUnmarshal body \<notin> set (snd (BuscarTweets e x q mx st en))"
  using assms sublist_appendI [of "fmt_d (StatusCode resp)" "''error HTTP: status code ''"
      "''. Respuesta de X:'' @ nl @ body"]
  by (simp add: BuscarTweets_def Let_def)

text \<open>The NewsAPI client never reads the status code: its outcome is the same for every code.\<close>

lemma NewsAPI_status_code_ignored:
  "NewsAPI_BuscarArticulos
     (e\<lparr>Do := \<lambda>req. map_sum id (\<lambda>resp. resp\<lparr>StatusCode := c\<rparr>) (Do e req)\<rparr>) n q i f t ps =
   NewsAPI_BuscarArticulos e n q i f t ps"
  by (auto simp: NewsAPI_BuscarArticulos_def NewsAPI_fullURL_def Let_def
      split: option.splits sum.splits)

text \<open>
  C1 at the NewsAPI client. The server answers 429 with a JSON body whose status is
  "error": the body is decoded, and the error returned is the one of the embedded status,
  in which the number 429 does not occur.
\<close>

theorem NewsAPI_http_status_unchecked:
  "JsonUnmarshal rate_limited_body \<in> set (snd rate_limited_call) \<and>
   fst rate_limited_call =
     (None, Some (''error de NewsAPI (Status: error). El cuerpo puede tener m'' @
                  [CHR 0xC3, CHR 0xA1] @ ''s detalles: '' @ rate_limited_body)) \<and>
   \<not> sublist (fmt_d 429)
       (''error de NewsAPI (Status: error). El cuerpo puede tener m'' @
        [CHR 0xC3, CHR 0xA1] @ ''s detalles: '' @ rate_limited_body)"
proof -
  have "\<not> sublist (fmt_d 429)
       (''error de NewsAPI (Status: error). El cuerpo puede tener m'' @
        [CHR 0xC3, CHR 0xA1] @ ''s detalles: '' @ rate_limited_body)"
    by code_simp
  then show ?thesis
    by (simp add: rate_limited_call_def NewsAPI_BuscarArticulos_def canned_env_def Let_def
        NewsAPI_error_payload_def)
qed

subsection \<open>The embedded status\<close>

lemma sublist_error: "sublist ''error'' (''error'' @ rest)"
  by (rule sublist_append_rightI)

lemma NewsAPI_status_not_ok:
  assumes "JsonUnmarshal body \<in> set (snd (NewsAPI_BuscarArticulos e n q i f t ps))"
    and "Unmarshal e body = Inr p" and "Status p \<noteq> ''ok''"
  shows "\<exists>msg. fst (NewsAPI_BuscarArticulos e n q i f t ps) = (None, Some msg) \<and> sublist ''error'' msg"
  using assms sublist_error
  by (auto simp: NewsAPI_BuscarArticulos_def Let_def split: option.splits sum.splits if_splits)

lemma Guardian_status_not_ok:
  assumes "JsonUnmarshal body \<in> set (snd (Guardian_BuscarArticulos e g q f t ps))"
    and "Unmarshal e body = Inr p" and "Guardian_Status (Response p) \<noteq> ''ok''"
  shows "\<exists>msg. fst (Guardian_BuscarArticulos e g q f t ps) = (None, Some msg) \<and> sublist ''error'' msg"
  using assms sublist_error
  by (auto simp: Guardian_BuscarArticulos_def Client_Get_def Let_def
      split: option.splits sum.splits if_splits prod.splits)

text \<open>
  C6. Whenever the NewsAPI client or the Guardian client has decoded a payload whose
  embedded status is not "ok", the call returns a nil response together with an error
  whose message contains the word "error".
\<close>

theorem embedded_status_not_ok:
  "(JsonUnmarshal body \<in> set (snd (NewsAPI_BuscarArticulos e n q i f t ps)) \<and>
    Unmarshal e body = Inr p \<and> Status p \<noteq> ''ok'' \<longrightarrow>
      (\<exists>msg. fst (NewsAPI_BuscarArticulos e n q i f t ps) = (None, Some msg) \<and>
             sublist ''error'' msg)) \<and>
   (JsonUnmarshal body' \<in> set (snd (Guardian_BuscarArticulos e' g q' f' t' ps')) \<and>
    Unmarshal e' body' = Inr p' \<and> Guardian_Status (Response p') \<noteq> ''ok'' \<longrightarrow>
      (\<exists>msg. fst (Guardian_BuscarArticulos e' g q' f' t' ps') = (None, Some msg) \<and>
             sublist ''error'' msg))"
  using NewsAPI_status_not_ok [of body e n q i f t ps p]
    Guardian_status_not_ok [of body' e' g q' f' t' ps' p']
  by blast

theorem embedded_status_not_ok_witness:
  "(\<exists>msg. fst (NewsAPI_BuscarArticulos (canned_env 429 rate_limited_body (Inr NewsAPI_error_payload))
                 (NewNewsAPICrawler ''k'') ''UdeA'' ''es,en'' ''2026-01-01'' ''2026-01-31'' 50)
            = (None, Some msg) \<and> sublist ''error'' msg) \<and>
   (\<exists>msg. fst (Guardian_BuscarArticulos (canned_env 200 Guardian_error_body (Inr Guardian_error_payload))
                 (NewGuardianCrawler ''k'') ''UdeA'' ''2023-01-01'' ''2023-12-31'' 50)
            = (None, Some msg) \<and> sublist ''error'' msg)"
proof -
  let ?e = "canned_env 429 rate_limited_body (Inr NewsAPI_error_payload)"
  let ?e' = "canned_env 200 Guardian_error_body (Inr Guardian_error_payload)"
  have 1: "JsonUnmarshal rate_limited_body \<in> set (snd (NewsAPI_BuscarArticulos ?e
             (NewNewsAPICrawler ''k'') ''UdeA'' ''es,en'' ''2026-01-01'' ''2026-01-31'' 50))"
    by (simp add: NewsAPI_BuscarArticulos_def canned_env_def Let_def NewsAPI_error_payload_def)
  have 2: "Unmarshal ?e rate_limited_body = Inr NewsAPI_error_payload"
    by (simp add: canned_env_def)
  have 3: "Status NewsAPI_error_payload \<noteq> ''ok''"
    by (simp add: NewsAPI_error_payload_def)
  have 4: "JsonUnmarshal Guardian_error_body \<in> set (snd (Guardian_BuscarArticulos ?e'
             (NewGuardianCrawler ''k'') ''UdeA'' ''2023-01-01'' ''2023-12-31'' 50))"
    by (simp add: Guardian_BuscarArticulos_def Client_Get_def canned_env_def Let_def
        Guardian_error_payload_def)
  have 5: "Unmarshal ?e' Guardian_error_body = Inr Guardian_error_payload"
    by (simp add: canned_env_def)
  have 6: "Guardian_Status (Response Guardian_error_payload) \<noteq> ''ok''"
    by (simp add: Guardian_error_payload_def)
  show ?thesis
    using embedded_status_not_ok [of rate_limited_body ?e "NewNewsAPICrawler ''k''" "''UdeA''"
        "''es,en''" "''2026-01-01''" "''2026-01-31''" 50 NewsAPI_error_payload
        Guardian_error_body ?e' "NewGuardianCrawler ''k''" "''UdeA''" "''2023-01-01''"
        "''2023-12-31''" 50 Guardian_error_payload]
      1 2 3 4 5 6
    by blast
qed

subsection \<open>Decode failures\<close>

lemma NewsAPI_decode_failure:
  assumes "JsonUnmarshal body \<in> set (snd (NewsAPI_BuscarArticulos e n q i f t ps))"
    and "Unmarshal e body = Inl err"
  shows "fst (NewsAPI_BuscarArticulos e n q i f t ps) =
           (None, Some (''error parseando JSON: '' @ err @ ''. '' @ nl @
                        ''Respuesta recibida (Inicio):'' @ nl @
                        (if length body > 500 then take 500 body @ ''...'' else body))) \<and>
         requests_sent (snd (NewsAPI_BuscarArticulos e n q i f t ps)) = 1"
  using assms
  by (auto simp: NewsAPI_BuscarArticulos_def Let_def preview_def requests_sent_def
      split: option.splits sum.splits if_splits)

lemma GDELT_decode_failure:
  assumes "JsonUnmarshal body \<in> set (snd (BuscarArticulosMultiLang e g q ls f t mx))"
    and "Unmarshal e body = Inl err"
  shows "fst (BuscarArticulosMultiLang e g q ls f t mx) =
           (None, Some (''error parseando JSON: '' @ err @ ''. '' @ nl @
                        ''Respuesta recibida (Inicio):'' @ nl @
                        (if length body > 500 then take 500 body @ ''...'' else body))) \<and>
         requests_sent (snd (BuscarArticulosMultiLang e g q ls f t mx)) = 1"
  using assms
  by (auto simp: BuscarArticulosMultiLang_def Let_def preview_def requests_sent_def
      split: option.splits sum.splits if_splits)

lemma X_decode_failure:
  assumes "JsonUnmarshal body \<in> set (snd (BuscarTweets e x q mx st en))"
    and "Unmarshal e body = Inl err"
  shows "fst (BuscarTweets e x q mx st en) =
           (None, Some (''error parseando JSON: '' @ err @ ''. Respuesta recibida:'' @ nl @
                        (if length body > 500 then take 500 body @ ''...'' else body))) \<and>
         requests_sent (snd (BuscarTweets e x q mx st en)) = 1"
  using assms
  by (auto simp: BuscarTweets_def Let_def preview_def requests_sent_def
      split: option.splits sum.splits if_splits)

lemma Guardian_decode_failure:
  assumes "JsonUnmarshal body \<in> set (snd (Guardian_BuscarArticulos e g q f t ps))"
    and "Unmarshal e body = Inl err"
  shows "fst (Guardian_BuscarArticulos e g q f t ps) =
           (None, Some (''error parseando JSON: '' @ err @ ''. Respuesta recibida (Inicio):'' @ nl @
                        (if length body > 500 then take 500 body @ ''...'' else body))) \<and>
         requests_sent (snd (Guardian_BuscarArticulos e g q f t ps)) = 1"
  using assms
  by (auto simp: Guardian_BuscarArticulos_def Client_Get_def Let_def preview_def requests_sent_def
      split: option.splits sum.splits if_splits prod.splits)

lemma long_body_preview:
  "length long_body > 500 \<and> take 500 long_body = replicate 500 (CHR ''<'')"
  by (simp add: long_body_def)

text \<open>
  C7. When the decoder rejects the body, each client returns a nil response and an error
  message that ends with a preview of the body: the body itself when it has at most 500
  bytes, otherwise its first 500 bytes followed by three dots. Exactly one request was
  sent: nothing is retried.
\<close>

theorem decode_failure_preview:
  "(JsonUnmarshal body1 \<in> set (snd (NewsAPI_BuscarArticulos e1 n q1 i1 f1 t1 ps1)) \<and>
    Unmarshal e1 body1 = Inl err1 \<longrightarrow>
      fst (NewsAPI_BuscarArticulos e1 n q1 i1 f1 t1 ps1) =
        (None, Some (''error parseando JSON: '' @ err1 @ ''. '' @ nl @
                     ''Respuesta recibida (Inicio):'' @ nl @
                     (if length body1 > 500 then take 500 body1 @ ''...'' else body1))) \<and>
      requests_sent (snd (NewsAPI_BuscarArticulos e1 n q1 i1 f1 t1 ps1)) = 1) \<and>
   (JsonUnmarshal body2 \<in> set (snd (BuscarArticulosMultiLang e2 g q2 ls f2 t2 mx2)) \<and>
    Unmarshal e2 body2 = Inl err2 \<longrightarrow>
      fst (BuscarArticulosMultiLang e2 g q2 ls f2 t2 mx2) =
        (None, Some (''error parseando JSON: '' @ err2 @ ''. '' @ nl @
                     ''Respuesta recibida (Inicio):'' @ nl @
                     (if length body2 > 500 then take 500 body2 @ ''...'' else body2))) \<and>
      requests_sent (snd (BuscarArticulosMultiLang e2 g q2 ls f2 t2 mx2)) = 1) \<and>
   (JsonUnmarshal body3 \<in> set (snd (BuscarTweets e3 x q3 mx3 st en)) \<and>
    Unmarshal e3 body3 = Inl err3 \<longrightarrow>
      fst (BuscarTweets e3 x q3 mx3 st en) =
        (None, Some (''error parseando JSON: '' @ err3 @ ''. Respuesta recibida:'' @ nl @
                     (if length body3 > 500 then take 500 body3 @ ''...'' else body3))) \<and>
      requests_sent (snd (BuscarTweets e3 x q3 mx3 st en)) = 1) \<and>
   (JsonUnmarshal body4 \<in> set (snd (Guardian_BuscarArticulos e4 gu q4 f4 t4 ps4)) \<and>
    Unmarshal e4 body4 = Inl err4 \<longrightarrow>
      fst (Guardian_BuscarArticulos e4 gu q4 f4 t4 ps4) =
        (None, Some (''error parseando JSON: '' @ err4 @
                     ''. Respuesta recibida (Inicio):'' @ nl @
                     (if length body4 > 500 then take 500 body4 @ ''...'' else body4))) \<and>
      requests_sent (snd (Guardian_BuscarArticulos e4 gu q4 f4 t4 ps4)) = 1)"
  using NewsAPI_decode_failure [of body1 e1 n q1 i1 f1 t1 ps1 err1]
    GDELT_decode_failure [of body2 e2 g q2 ls f2 t2 mx2 err2]
    X_decode_failure [of body3 e3 x q3 mx3 st en err3]
    Guardian_decode_failure [of body4 e4 gu q4 f4 t4 ps4 err4]
  by blast

theorem decode_failure_preview_witness:
  "fst (NewsAPI_BuscarArticulos broken_json_env (NewNewsAPICrawler ''k'') ''UdeA'' ''es,en''
          ''2026-01-01'' ''2026-01-31'' 50) =
     (None, Some (''error parseando JSON: '' @ json_syntax_error @ ''. '' @ nl @
                  ''Respuesta recibida (Inicio):'' @ nl @ replicate 500 (CHR ''<'') @ ''...'')) \<and>
   fst (BuscarArticulosMultiLang broken_json_env NewGDELTCrawler ''UdeA'' [''spanish'']
          ''20230101000000'' ''20231231235959'' 250) =
     (None, Some (''error parseando JSON: '' @ json_syntax_error @ ''. '' @ nl @
                  ''Respuesta recibida (Inicio):'' @ nl @ replicate 500 (CHR ''<'') @ ''...'')) \<and>
   fst (BuscarTweets broken_json_env (NewXCrawler ''k'') ''UdeA'' 50 ''2026-01-01T00:00:00Z''
          ''2026-01-07T00:00:00Z'') =
     (None, Some (''error parseando JSON: '' @ json_syntax_error @ ''. Respuesta recibida:'' @ nl @
                  replicate 500 (CHR ''<'') @ ''...'')) \<and>
   fst (Guardian_BuscarArticulos broken_json_env (NewGuardianCrawler ''k'') ''UdeA''
          ''2023-01-01'' ''2023-12-31'' 50) =
     (None, Some (''error parseando JSON: '' @ json_syntax_error @
                  ''. Respuesta recibida (Inicio):'' @ nl @
                  replicate 500 (CHR ''<'') @ ''...''))"
proof -
  have 1: "JsonUnmarshal long_body \<in> set (snd (NewsAPI_BuscarArticulos broken_json_env
             (NewNewsAPICrawler ''k'') ''UdeA'' ''es,en'' ''2026-01-01'' ''2026-01-31'' 50))"
    by (simp add: NewsAPI_BuscarArticulos_def broken_json_env_def canned_env_def Let_def)
  have 2: "JsonUnmarshal long_body \<in> set (snd (BuscarArticulosMultiLang broken_json_env
             NewGDELTCrawler ''UdeA'' [''spanish''] ''20230101000000'' ''20231231235959'' 250))"
    by (simp add: BuscarArticulosMultiLang_def broken_json_env_def canned_env_def Let_def)
  have 3: "JsonUnmarshal long_body \<in> set (snd (BuscarTweets broken_json_env (NewXCrawler ''k'')
             ''UdeA'' 50 ''2026-01-01T00:00:00Z'' ''2026-01-07T00:00:00Z''))"
    by (simp add: BuscarTweets_def broken_json_env_def canned_env_def Let_def)
  have 4: "JsonUnmarshal long_body \<in> set (snd (Guardian_BuscarArticulos broken_json_env
             (NewGuardianCrawler ''k'') ''UdeA'' ''2023-01-01'' ''2023-12-31'' 50))"
    by (simp add: Guardian_BuscarArticulos_def Client_Get_def broken_json_env_def
        canned_env_def Let_def)
  have u: "\<And>b. Unmarshal broken_json_env b = Inl json_syntax_error"
    by (simp add: broken_json_env_def canned_env_def)
  show ?thesis
    using decode_failure_preview [where ?body1.0 = long_body and ?e1.0 = broken_json_env
        and n = "NewNewsAPICrawler ''k''" and ?q1.0 = "''UdeA''" and ?i1.0 = "''es,en''"
        and ?f1.0 = "''2026-01-01''" and ?t1.0 = "''2026-01-31''" and ?ps1.0 = 50
        and ?err1.0 = json_syntax_error
        and ?body2.0 = long_body and ?e2.0 = broken_json_env and g = NewGDELTCrawler
        and ?q2.0 = "''UdeA''" and ls = "[''spanish'']" and ?f2.0 = "''20230101000000''"
        and ?t2.0 = "''20231231235959''" and ?mx2.0 = 250 and ?err2.0 = json_syntax_error
        and ?body3.0 = long_body and ?e3.0 = broken_json_env and x = "NewXCrawler ''k''"
        and ?q3.0 = "''UdeA''" and ?mx3.0 = 50 and st = "''2026-01-01T00:00:00Z''"
        and en = "''2026-01-07T00:00:00Z''" and ?err3.0 = json_syntax_error
        and ?body4.0 = long_body and ?e4.0 = broken_json_env and gu = "NewGuardianCrawler ''k''"
        and ?q4.0 = "''UdeA''" and ?f4.0 = "''2023-01-01''" and ?t4.0 = "''2023-12-31''"
        and ?ps4.0 = 50 and ?err4.0 = json_syntax_error]
    by (simp add: 1 2 3 4 u long_body_preview)
qed

subsection \<open>The query of the NewsAPI client\<close>

text \<open>
  C9. The request URL of the NewsAPI client, and with it the whole outcome of the call,
  is the same for any two values of \<^verbatim>\<open>queryRaw\<close>; the parameter \<open>q\<close> is the fixed phrase
  "Universidad de Antioquia" OR UdeA.
\<close>

theorem NewsAPI_query_ignored:
  "NewsAPI_fullURL e n q1 i f t ps = NewsAPI_fullURL e n q2 i f t ps \<and>
   NewsAPI_BuscarArticulos e n q1 i f t ps = NewsAPI_BuscarArticulos e n q2 i f t ps \<and>
   map snd (filter (\<lambda>kv. fst kv = ''q'') (NewsAPI_params q1 i f t ps)) =
     [dquote @ ''Universidad de Antioquia'' @ dquote @ '' OR UdeA'']"
  by (simp add: NewsAPI_fullURL_def NewsAPI_BuscarArticulos_def NewsAPI_params_def
      NewsAPI_finalQuery_def)

text \<open>The URL built for the arguments of \<^verbatim>\<open>main\<close>, with the encoder of the standard library.\<close>

lemma NewsAPI_fullURL_example:
  "NewsAPI_fullURL (canned_env 200 [] (Inl [])) (NewNewsAPICrawler ''k'') ''anything'' ''es,en''
     ''2026-01-01T00:00:00'' ''2026-01-31T10:20:30'' 50 =
   ''https://newsapi.org/v2/everything?from=2026-01-01T00%3A00%3A00&language=es%2Cen&pageSize=50&q=%22Universidad+de+Antioquia%22+OR+UdeA&sortBy=publishedAt&to=2026-01-31T10%3A20%3A30''"
  by code_simp

end
